theory Spec2Isabelle
  imports Main "HOL-Library.Word"
begin

section \<open>Shared data: hashes, error codes, headers\<close>

text \<open>
  A hash digest is 32 bytes. \<open>size_t\<close> is taken as 64 bits wide, \<open>uint32_t\<close> as
  32 bits; both wrap around as in C++.
\<close>

type_synonym hash_digest = "256 word"
type_synonym size_t = "64 word"
type_synonym uint32_t = "32 word"

text \<open>
  The error codes the node's handlers test for or produce. An error code converts to
  \<open>true\<close> in a condition exactly when it is not \<open>success\<close>; \<open>other_error\<close> stands for
  every code of the library that no handler names.
\<close>

datatype code =
    success
  | service_stopped
  | operation_failed
  | invalid_previous_block
  | channel_timeout
  | channel_stopped
  | other_error nat

text \<open>
  Ways in which a handler can fail to return: an assertion that does not hold, the use of
  a null channel pointer, a division by zero.
\<close>

datatype failure = assertion_failed | null_dereference | division_by_zero

text \<open>
  A block header. The core reads its previous-block hash and its own hash; the hash is
  computed outside the node (function \<open>hash_block_header\<close> below reads it).
\<close>

record header =
  previous_block_hash :: hash_digest
  hash_of_self :: hash_digest

definition hash_block_header :: "header \<Rightarrow> hash_digest" where
  "hash_block_header h = hash_of_self h"

section \<open>The header slot table\<close>

text \<open>
  Modelled from the spec: the class \<open>header_list\<close> (include and source file
  \<open>utility/header_list\<close>) is not among the sources; \<open>protocol_header_sync.cpp\<close> only calls
  it. The table has the three anchors, a capacity and the stored headers.
\<close>

record header_list =
  first_height :: size_t
  first_hash :: hash_digest
  stop_hash :: hash_digest
  capacity :: nat
  slots :: "header list"

text \<open>Modelled from the spec: \<open>new\<close> allocates a table with empty slots.\<close>

definition new_header_list ::
  "size_t \<Rightarrow> hash_digest \<Rightarrow> hash_digest \<Rightarrow> nat \<Rightarrow> header_list" where
  "new_header_list fh fhash shash cap =
     \<lparr>first_height = fh, first_hash = fhash, stop_hash = shash, capacity = cap, slots = []\<rparr>"

text \<open>
  Modelled from the spec: \<open>previous_height()\<close> is \<open>first_height + len(slots) - 1\<close>, which is
  \<open>first_height - 1\<close> for an empty table (in \<open>size_t\<close> arithmetic).
\<close>

definition previous_height :: "header_list \<Rightarrow> size_t" where
  "previous_height t = first_height t + of_nat (length (slots t)) - 1"

text \<open>
  Modelled from the spec: \<open>previous_hash()\<close> is the hash of the last stored header, or
  \<open>first_hash\<close> if the table is empty.
\<close>

definition previous_hash :: "header_list \<Rightarrow> hash_digest" where
  "previous_hash t =
     (case slots t of [] \<Rightarrow> first_hash t | _ # _ \<Rightarrow> hash_block_header (last (slots t)))"

text \<open>
  Modelled from the spec: \<open>complete()\<close> is true when the last stored header's hash equals
  \<open>stop_hash\<close>.
\<close>

definition complete :: "header_list \<Rightarrow> bool" where
  "complete t =
     (case slots t of [] \<Rightarrow> False | _ # _ \<Rightarrow> hash_block_header (last (slots t)) = stop_hash t)"

text \<open>
  Modelled from the spec: the part of a batch that a merge accepts runs up to and including
  the header that carries the stop hash; what follows it is ignored.
\<close>

fun accepted :: "hash_digest \<Rightarrow> header list \<Rightarrow> header list" where
  "accepted stop [] = []"
| "accepted stop (h # hs) =
     (if hash_block_header h = stop then [h] else h # accepted stop hs)"

text \<open>
  Modelled from the spec: a run of headers links to a hash when the first header names that
  hash as its previous hash and every later header names the hash of the one before it.
\<close>

fun links :: "hash_digest \<Rightarrow> header list \<Rightarrow> bool" where
  "links p [] = True"
| "links p (h # hs) = (previous_block_hash h = p \<and> links (hash_block_header h) hs)"

text \<open>
  Modelled from the spec: \<open>merge\<close> fails, leaving the table as it was, if the first header
  does not link to \<open>previous_hash()\<close>, if an adjacent pair of the accepted part does not
  link, or if the accepted part would overflow the capacity; otherwise it appends the
  accepted part. The result is the flag and the table after the call. What the class
  really does to the table when a merge fails is not visible in the sources: the comment
  at the call in \<open>handle_receive_headers\<close> says that a merge failure resets the headers
  list. No statement below depends on the table after a failed merge.
\<close>

definition merge :: "header list \<Rightarrow> header_list \<Rightarrow> bool \<times> header_list" where
  "merge batch t =
     (let part = accepted (stop_hash t) batch in
      if \<not> links (previous_hash t) part then (False, t)
      else if capacity t < length (slots t) + length part then (False, t)
      else (True, t\<lparr>slots := slots t @ part\<rparr>))"

section \<open>The header-sync protocol\<close>

text \<open>The \<open>get_headers\<close> request: a locator and a stop hash.\<close>

record get_headers =
  start_hashes :: "hash_digest list"
  stop_hash_of :: hash_digest

text \<open>
  The state of one protocol instance. The first four fields are the members of
  \<open>protocol_header_sync\<close>. The others record what the instance does to its surroundings:
  the channel's stopped flag, whether the timer is armed and the headers subscription held,
  whether the completion synchronizer has fired, every code passed to \<open>complete\<close>, every
  code the user's handler was invoked with, every stop request, and every request sent.
\<close>

record sync_state =
  headers :: header_list
  current_second :: size_t
  minimum_rate :: uint32_t
  start_size :: size_t
  stopped :: bool
  timer_armed :: bool
  subscribed :: bool
  fired :: bool
  signalled :: "code list"
  handled :: "code list"
  stop_requests :: "code list"
  sent :: "get_headers list"

text \<open>The interval in which the header download rate is measured, in seconds.\<close>

definition expiry_interval :: size_t where
  "expiry_interval = 5"

text \<open>
  Modelled from the spec: the constant \<open>max_get_headers\<close> is declared outside the
  sources; it is \<open>MAX_HEADERS_PER_MESSAGE\<close>, 2000.
\<close>

definition max_get_headers :: nat where
  "max_get_headers = 2000"

text \<open>
  The constructor. The channel it is bound to may or may not be stopped already, which
  is the third argument. The members are taken to be of type \<open>size_t\<close>, but for the
  minimum rate, which the constructor receives as \<open>uint32_t\<close>.
\<close>

definition protocol_header_sync :: "header_list \<Rightarrow> uint32_t \<Rightarrow> bool \<Rightarrow> sync_state" where
  "protocol_header_sync hs rate chan_stopped =
     \<lparr>headers = hs,
      current_second = 0,
      minimum_rate = rate,
      start_size = previous_height hs - first_height hs,
      stopped = chan_stopped,
      timer_armed = False,
      subscribed = False,
      fired = False,
      signalled = [],
      handled = [],
      stop_requests = [],
      sent = []\<rparr>"

text \<open>
  \<open>headers_complete\<close>: invoke the user's handler, then stop the channel with
  \<open>channel_stopped\<close>. The channel and the timer belong to the network library; as the
  specification has it, a stop request sets the channel's stopped flag and disarms the
  timer.
\<close>

definition headers_complete :: "code \<Rightarrow> sync_state \<Rightarrow> sync_state" where
  "headers_complete ec s =
     s\<lparr>handled := handled s @ [ec],
       stop_requests := stop_requests s @ [channel_stopped],
       stopped := True,
       timer_armed := False\<rparr>"

text \<open>
  Modelled from the spec: the library's \<open>synchronize\<close> is a one-shot barrier, its first
  call is forwarded and every later one is dropped. \<open>signal_complete\<close> is the handler
  \<open>complete\<close> that \<open>start\<close> builds with it around \<open>headers_complete\<close>; the handlers
  below call it wherever the source calls \<open>complete\<close>.
\<close>

definition signal_complete :: "code \<Rightarrow> sync_state \<Rightarrow> sync_state" where
  "signal_complete ec s =
     (let s1 = s\<lparr>signalled := signalled s @ [ec]\<rparr> in
      if fired s1 then s1 else headers_complete ec (s1\<lparr>fired := True\<rparr>))"

text \<open>
  \<open>send_get_headers\<close> puts one request on the channel, \<open>start\<close> sets up a new
  synchronizer, the timer and the subscription to headers messages and sends the first
  request, and \<open>handle_send\<close> receives the result of a request.
\<close>

definition send_get_headers :: "sync_state \<Rightarrow> sync_state" where
  "send_get_headers s =
     (if stopped s then s
      else s\<lparr>sent := sent s @
             [\<lparr>start_hashes = [previous_hash (headers s)],
               stop_hash_of = stop_hash (headers s)\<rparr>]\<rparr>)"

definition start :: "sync_state \<Rightarrow> sync_state" where
  "start s = send_get_headers (s\<lparr>fired := False, timer_armed := True, subscribed := True\<rparr>)"

definition handle_send :: "code \<Rightarrow> sync_state \<Rightarrow> sync_state" where
  "handle_send ec s =
     (if stopped s then s
      else if ec \<noteq> success then signal_complete ec s
      else s)"

text \<open>
  \<open>handle_receive_headers\<close>: the flag returned (true keeps the subscription) and the
  state after the call.
\<close>

definition handle_receive_headers ::
  "code \<Rightarrow> header list \<Rightarrow> sync_state \<Rightarrow> bool \<times> sync_state" where
  "handle_receive_headers ec message s =
     (if stopped s then (False, s)
      else if ec \<noteq> success then (False, signal_complete ec s)
      else
        let (merged, hs) = merge message (headers s);
            s1 = s\<lparr>headers := hs\<rparr>
        in if \<not> merged then (False, signal_complete invalid_previous_block s1)
           else if complete (headers s1) then (False, signal_complete success s1)
           else if length message < max_get_headers
             then (False, signal_complete operation_failed s1)
           else (True, send_get_headers s1))"

text \<open>
  \<open>handle_event\<close>, fired by the base timer and by the stop handler. The division is by
  the seconds counter after it has been advanced; it wraps around, and a counter that has
  wrapped to zero makes the division undefined.
\<close>

definition handle_event :: "code \<Rightarrow> sync_state \<Rightarrow> failure + sync_state" where
  "handle_event ec s =
     (if ec = channel_stopped then Inr (signal_complete ec s)
      else if ec \<noteq> success \<and> ec \<noteq> channel_timeout then Inr (signal_complete ec s)
      else
        let s1 = s\<lparr>current_second := current_second s + expiry_interval\<rparr> in
        if current_second s1 = 0 then Inl division_by_zero
        else
          let rate = (previous_height (headers s1) - start_size s1) div current_second s1 in
          if rate < ucast (minimum_rate s1) then Inr (signal_complete channel_timeout s1)
          else Inr s1)"

subsection \<open>Runs of one protocol instance\<close>

text \<open>
  What reaches a started instance: a headers message (or a transport error in its place),
  the result of a send, an event of the timer or of the stop handler, and the channel
  being stopped from outside. Each handler runs as one step.
\<close>

datatype event =
    Receive code "header list"
  | Sent code
  | Timer code
  | Channel_stop

text \<open>
  Modelled from the spec: a headers message is delivered only while the subscription is
  held, and the flag that \<open>handle_receive_headers\<close> returns says whether it is kept.
\<close>

definition step :: "event \<Rightarrow> sync_state \<Rightarrow> failure + sync_state" where
  "step e s =
     (case e of
        Receive ec message \<Rightarrow>
          if subscribed s
          then Inr ((snd (handle_receive_headers ec message s))
                      \<lparr>subscribed := fst (handle_receive_headers ec message s)\<rparr>)
          else Inr s
      | Sent ec \<Rightarrow> Inr (handle_send ec s)
      | Timer ec \<Rightarrow> handle_event ec s
      | Channel_stop \<Rightarrow> Inr (s\<lparr>stopped := True\<rparr>))"

fun run :: "event list \<Rightarrow> sync_state \<Rightarrow> failure + sync_state" where
  "run [] s = Inr s"
| "run (e # es) s = (case step e s of Inl f \<Rightarrow> Inl f | Inr s' \<Rightarrow> run es s')"

text \<open>
  What holds of every state a started instance can reach: the user's handler has seen the
  first code signalled and no other, each invocation was followed by a stop request with
  \<open>channel_stopped\<close>, the synchronizer has fired exactly when something was signalled,
  and once it has fired the channel is stopped.
\<close>

definition sync_invariant :: "sync_state \<Rightarrow> bool" where
  "sync_invariant s =
     (handled s = take 1 (signalled s) \<and>
      stop_requests s = map (\<lambda>_. channel_stopped) (handled s) \<and>
      fired s = (signalled s \<noteq> []) \<and>
      (fired s \<longrightarrow> stopped s))"


section \<open>The session\<close>

text \<open>
  A channel pointer is a shared pointer to a channel and may be null. A channel is
  identified by a number.
\<close>

type_synonym channel = nat
type_synonym channel_ptr = "channel option"

datatype inventory_type_id = transaction | block | other_type nat

record inventory_vector_type =
  type :: inventory_type_id
  hash :: hash_digest

record inventory_type =
  inventories :: "inventory_vector_type list"

type_synonym get_data_type = inventory_type

record block_type =
  header :: header

text \<open>What \<open>new_channel\<close> writes to the error log: the channel and the code.\<close>

datatype log_entry = Failure_to_establish_channel channel_ptr code

text \<open>
  The session holds references to the handshake, the protocol, the blockchain, the poller
  and the transaction pool. Their state, as far as the session's handlers touch it: the
  pending single-shot subscriptions, the calls made to the poller, the heights pushed to
  the handshake, the messages broadcast and sent, the queries put to the transaction pool,
  the hashes that pool knows, and the error log.
\<close>

record session =
  channel_subscriptions :: nat
  reorganize_subscriptions :: nat
  inventory_subscriptions :: "channel list"
  get_blocks_subscriptions :: "channel list"
  poll_queries :: "channel list"
  poll_monitors :: "channel list"
  handshake_heights :: "uint32_t list"
  broadcasts :: "inventory_type list"
  channel_sends :: "(channel \<times> get_data_type) list"
  exists_queries :: "hash_digest list"
  tx_pool :: "hash_digest set"
  error_log :: "log_entry list"

text \<open>The constructor: nothing subscribed, nothing sent; the pool is the one given.\<close>

definition new_session :: "hash_digest set \<Rightarrow> session" where
  "new_session pool =
     \<lparr>channel_subscriptions = 0,
      reorganize_subscriptions = 0,
      inventory_subscriptions = [],
      get_blocks_subscriptions = [],
      poll_queries = [],
      poll_monitors = [],
      handshake_heights = [],
      broadcasts = [],
      channel_sends = [],
      exists_queries = [],
      tx_pool = pool,
      error_log = []\<rparr>"

text \<open>
  The macro \<open>BITCOIN_ASSERT\<close> is defined outside the sources. Every handler that
  uses it takes the flag \<open>checked\<close>: with assertions compiled in, a condition that is
  false aborts the handler; without them the macro is empty, and a null channel pointer
  that is then used is a null dereference.

  The constant \<open>max_uint32\<close> is the largest 32-bit value.
\<close>

definition max_uint32 :: uint32_t where
  "max_uint32 = - 1"

text \<open>
  \<open>session::start\<close>: subscribe to new channels, push the height the chain reports to the
  handshake, subscribe to reorganizations.
\<close>

definition session_start :: "uint32_t \<Rightarrow> session \<Rightarrow> session" where
  "session_start last_height s =
     s\<lparr>channel_subscriptions := channel_subscriptions s + 1,
       handshake_heights := handshake_heights s @ [last_height],
       reorganize_subscriptions := reorganize_subscriptions s + 1\<rparr>"

definition new_channel :: "bool \<Rightarrow> code \<Rightarrow> channel_ptr \<Rightarrow> session \<Rightarrow> failure + session" where
  "new_channel checked ec node s =
     (if ec \<noteq> success
      then Inr (s\<lparr>error_log := error_log s @ [Failure_to_establish_channel node ec]\<rparr>)
      else
        case node of
          None \<Rightarrow> Inl (if checked then assertion_failed else null_dereference)
        | Some c \<Rightarrow>
            Inr (s\<lparr>inventory_subscriptions := inventory_subscriptions s @ [c],
                   get_blocks_subscriptions := get_blocks_subscriptions s @ [c],
                   channel_subscriptions := channel_subscriptions s + 1,
                   poll_queries := poll_queries s @ [c],
                   poll_monitors := poll_monitors s @ [c]\<rparr>))"

text \<open>The loop of \<open>set_start_height\<close> that pushes one block vector per new block.\<close>

fun push_block_inventories :: "block_type list \<Rightarrow> inventory_type \<Rightarrow> inventory_type" where
  "push_block_inventories [] blocks_inventory = blocks_inventory"
| "push_block_inventories (b # bs) blocks_inventory =
     push_block_inventories bs
       (blocks_inventory\<lparr>inventories := inventories blocks_inventory @
          [\<lparr>type = block, hash = hash_block_header (header b)\<rparr>]\<rparr>)"

text \<open>
  \<open>session::set_start_height\<close>, the handler of a reorganization. The sum
  \<open>fork_point + new_blocks.size()\<close> is formed in \<open>size_t\<close> and cast to \<open>uint32_t\<close>.
\<close>

definition set_start_height ::
  "bool \<Rightarrow> code \<Rightarrow> uint32_t \<Rightarrow> block_type list \<Rightarrow> block_type list \<Rightarrow> session
     \<Rightarrow> failure + session" where
  "set_start_height checked ec fork_point new_blocks replaced_blocks s =
     (if ec \<noteq> success
      then (if checked \<and> ec \<noteq> service_stopped then Inl assertion_failed else Inr s)
      else if checked \<and>
              \<not> (of_nat (length new_blocks) :: size_t) \<le> ucast (max_uint32 - fork_point)
        then Inl assertion_failed
      else
        let height = (ucast ((ucast fork_point :: size_t) + of_nat (length new_blocks))
                        :: uint32_t);
            blocks_inventory = push_block_inventories new_blocks \<lparr>inventories = []\<rparr>
        in Inr (s\<lparr>handshake_heights := handshake_heights s @ [height],
                  reorganize_subscriptions := reorganize_subscriptions s + 1,
                  broadcasts := broadcasts s @ [blocks_inventory]\<rparr>))"

definition request_tx_data ::
  "bool \<Rightarrow> bool \<Rightarrow> hash_digest \<Rightarrow> channel_ptr \<Rightarrow> session \<Rightarrow> failure + session" where
  "request_tx_data checked tx_exists tx_hash node s =
     (if tx_exists then Inr s
      else
        let request_tx = \<lparr>inventories = [\<lparr>type = transaction, hash = tx_hash\<rparr>]\<rparr> in
        case node of
          None \<Rightarrow> Inl (if checked then assertion_failed else null_dereference)
        | Some c \<Rightarrow> Inr (s\<lparr>channel_sends := channel_sends s @ [(c, request_tx)]\<rparr>))"

text \<open>
  \<open>session::new_tx_inventory\<close>: ask the pool whether the transaction exists; the pool
  answers by calling \<open>request_tx_data\<close>.
\<close>

definition new_tx_inventory ::
  "bool \<Rightarrow> hash_digest \<Rightarrow> channel_ptr \<Rightarrow> session \<Rightarrow> failure + session" where
  "new_tx_inventory checked tx_hash node s =
     request_tx_data checked (tx_hash \<in> tx_pool s) tx_hash node
       (s\<lparr>exists_queries := exists_queries s @ [tx_hash]\<rparr>)"

text \<open>
  Modelled from the spec: a subscription to new channels is single-shot. A notification
  uses up one pending subscription and runs \<open>new_channel\<close>; with none pending it reaches
  no handler.
\<close>

definition channel_event :: "bool \<Rightarrow> code \<times> channel_ptr \<Rightarrow> session \<Rightarrow> failure + session" where
  "channel_event checked e s =
     (if channel_subscriptions s = 0 then Inr s
      else new_channel checked (fst e) (snd e)
             (s\<lparr>channel_subscriptions := channel_subscriptions s - 1\<rparr>))"

fun channel_events :: "bool \<Rightarrow> (code \<times> channel_ptr) list \<Rightarrow> session \<Rightarrow> failure + session" where
  "channel_events checked [] s = Inr s"
| "channel_events checked (e # es) s =
     (case channel_event checked e s of Inl f \<Rightarrow> Inl f | Inr s' \<Rightarrow> channel_events checked es s')"

section \<open>Conversions between the integer widths\<close>

lemma unat_ucast_32_64: "unat (ucast (r::uint32_t) :: size_t) = unat r"
proof -
  have "unat r < 2 ^ 32" using unsigned_less [of r, where 'a = nat] by simp
  then have "unat r < 2 ^ 64" by (rule less_trans) simp
  then show ?thesis by (simp add: unsigned_ucast_eq take_bit_nat_eq_self_iff)
qed

lemma unat_ucast_64_32: "unat (ucast (x::size_t) :: uint32_t) = unat x mod 2 ^ 32"
  by (simp add: unsigned_ucast_eq take_bit_eq_mod)

lemma unat_max_uint32: "unat max_uint32 = 2 ^ 32 - 1"
  by (simp add: max_uint32_def unsigned_minus_1_eq_mask mask_eq_exp_minus_1)

lemma unat_max_minus: "unat (max_uint32 - fp) = 2 ^ 32 - 1 - unat fp"
proof -
  have "fp \<le> max_uint32" by (simp add: max_uint32_def)
  then have "unat (max_uint32 - fp) = unat max_uint32 - unat fp" by (rule unat_sub)
  then show ?thesis by (simp add: unat_max_uint32)
qed

lemma unat_size_of_length: "n < 2 ^ 64 \<Longrightarrow> unat (of_nat n :: size_t) = n"
  by (simp add: unat_of_nat)

section \<open>The header-sync protocol: the completion barrier\<close>

lemma invariant_signal_complete:
  "sync_invariant s \<Longrightarrow> sync_invariant (signal_complete ec s)"
  by (cases "signalled s")
    (auto simp: sync_invariant_def signal_complete_def headers_complete_def Let_def)

lemma invariant_send_get_headers:
  "sync_invariant s \<Longrightarrow> sync_invariant (send_get_headers s)"
  by (auto simp: sync_invariant_def send_get_headers_def)

lemma invariant_handle_send:
  "sync_invariant s \<Longrightarrow> sync_invariant (handle_send ec s)"
  by (simp add: handle_send_def invariant_signal_complete)

lemma invariant_headers_update:
  "sync_invariant s \<Longrightarrow> sync_invariant (s\<lparr>headers := hs\<rparr>)"
  by (simp add: sync_invariant_def)

lemma invariant_subscribed_update:
  "sync_invariant s \<Longrightarrow> sync_invariant (s\<lparr>subscribed := b\<rparr>)"
  by (simp add: sync_invariant_def)

lemma invariant_second_update:
  "sync_invariant s \<Longrightarrow> sync_invariant (s\<lparr>current_second := c\<rparr>)"
  by (simp add: sync_invariant_def)

lemma invariant_stopped_update:
  "sync_invariant s \<Longrightarrow> sync_invariant (s\<lparr>stopped := True\<rparr>)"
  by (simp add: sync_invariant_def)

lemma invariant_handle_receive_headers:
  "sync_invariant s \<Longrightarrow> sync_invariant (snd (handle_receive_headers ec message s))"
  by (simp add: handle_receive_headers_def Let_def split_beta invariant_signal_complete
      invariant_send_get_headers invariant_headers_update)

lemma invariant_handle_event:
  "sync_invariant s \<Longrightarrow> handle_event ec s = Inr s' \<Longrightarrow> sync_invariant s'"
  by (auto simp: handle_event_def Let_def invariant_signal_complete invariant_second_update
      split: if_splits)

lemma invariant_step:
  "sync_invariant s \<Longrightarrow> step e s = Inr s' \<Longrightarrow> sync_invariant s'"
  by (cases e)
    (auto simp: step_def invariant_handle_receive_headers invariant_subscribed_update
      invariant_handle_send invariant_handle_event invariant_stopped_update split: if_splits)

lemma invariant_run:
  "sync_invariant s \<Longrightarrow> run evs s = Inr s' \<Longrightarrow> sync_invariant s'"
proof (induction evs arbitrary: s)
  case Nil
  then show ?case by simp
next
  case (Cons e evs)
  then show ?case by (auto split: sum.splits dest: invariant_step)
qed

lemma invariant_start:
  "sync_invariant (start (protocol_header_sync hs r st))"
  by (simp add: sync_invariant_def start_def send_get_headers_def protocol_header_sync_def)















section \<open>The header-sync protocol: receiving headers\<close>

text \<open>
  Claim C4. In every state that a started instance can reach and in which the channel is
  not stopped, a headers message that arrives without error, merges, leaves the table
  incomplete and has fewer than 2000 headers makes \<open>handle_receive_headers\<close> signal
  \<open>operation_failed\<close>: the user's handler is invoked with that code, the stop is
  requested with \<open>channel_stopped\<close>, the channel is stopped, and the subscription is
  given up.
\<close>

theorem short_batch_fails:
  assumes "run evs (start (protocol_header_sync hs r st)) = Inr s"
    and "\<not> stopped s"
    and "merge message (headers s) = (True, t)"
    and "\<not> complete t"
    and "length message < 2000"
  shows "handle_receive_headers success message s =
           (False, signal_complete operation_failed (s\<lparr>headers := t\<rparr>)) \<and>
         handled (signal_complete operation_failed (s\<lparr>headers := t\<rparr>)) = [operation_failed] \<and>
         stop_requests (signal_complete operation_failed (s\<lparr>headers := t\<rparr>))
           = [channel_stopped] \<and>
         stopped (signal_complete operation_failed (s\<lparr>headers := t\<rparr>))"
proof -
  have inv: "sync_invariant s"
    using invariant_run [OF invariant_start assms(1)] .
  with assms(2) have nf: "\<not> fired s" "signalled s = []" "handled s = []" "stop_requests s = []"
    by (auto simp: sync_invariant_def)
  from assms(2-5) have "handle_receive_headers success message s =
           (False, signal_complete operation_failed (s\<lparr>headers := t\<rparr>))"
    by (simp add: handle_receive_headers_def max_get_headers_def)
  with nf show ?thesis
    by (simp add: signal_complete_def headers_complete_def Let_def)
qed

text \<open>
  A table for three headers receives a batch of one linking header right after the start.
\<close>

theorem short_batch_fails_witness:
  "run [] (start (protocol_header_sync (new_header_list 0 10 13 3) 10 False))
     = Inr (start (protocol_header_sync (new_header_list 0 10 13 3) 10 False)) \<and>
   \<not> stopped (start (protocol_header_sync (new_header_list 0 10 13 3) 10 False)) \<and>
   merge [\<lparr>previous_block_hash = 10, hash_of_self = 11\<rparr>]
       (headers (start (protocol_header_sync (new_header_list 0 10 13 3) 10 False)))
     = (True, (new_header_list 0 10 13 3)
                \<lparr>slots := [\<lparr>previous_block_hash = 10, hash_of_self = 11\<rparr>]\<rparr>) \<and>
   \<not> complete ((new_header_list 0 10 13 3)
                \<lparr>slots := [\<lparr>previous_block_hash = 10, hash_of_self = 11\<rparr>]\<rparr>) \<and>
   length [\<lparr>previous_block_hash = 10, hash_of_self = 11\<rparr>] < 2000 \<and>
   fst (handle_receive_headers success [\<lparr>previous_block_hash = 10, hash_of_self = 11\<rparr>]
          (start (protocol_header_sync (new_header_list 0 10 13 3) 10 False))) = False \<and>
   handled (snd (handle_receive_headers success [\<lparr>previous_block_hash = 10, hash_of_self = 11\<rparr>]
          (start (protocol_header_sync (new_header_list 0 10 13 3) 10 False))))
     = [operation_failed]"
proof -
  let ?P = "start (protocol_header_sync (new_header_list 0 10 13 3) 10 False)"
  let ?m = "[\<lparr>previous_block_hash = 10, hash_of_self = 11\<rparr>]"
  let ?t = "(new_header_list 0 10 13 3)\<lparr>slots := ?m\<rparr>"
  have r: "run [] ?P = Inr ?P" by simp
  have ns: "\<not> stopped ?P"
    by (simp add: start_def send_get_headers_def protocol_header_sync_def)
  have m: "merge ?m (headers ?P) = (True, ?t)"
    by (simp add: start_def send_get_headers_def protocol_header_sync_def merge_def
        new_header_list_def previous_hash_def hash_block_header_def)
  have nc: "\<not> complete ?t"
    by (simp add: complete_def new_header_list_def hash_block_header_def)
  have l: "length ?m < 2000" by simp
  from short_batch_fails [OF r ns m nc l] r ns m nc l show ?thesis by simp
qed

text \<open>
  Claim C5. \<open>handle_receive_headers\<close> returns true exactly when the channel is not
  stopped, no error code came with the message, the batch merged, the table is not
  complete afterwards and the batch has at least 2000 headers; it is then that
  \<open>get_headers\<close> is sent again, from the new previous hash. In every other case it
  returns false, and the code it signals is none if the channel is stopped, the transport
  error, \<open>invalid_previous_block\<close> after a failed merge, \<open>success\<close> when the table is
  complete, and \<open>operation_failed\<close> after a short batch.
\<close>

theorem keep_subscription_iff:
  "fst (handle_receive_headers ec message s) =
     (\<not> stopped s \<and> ec = success \<and> fst (merge message (headers s)) \<and>
      \<not> complete (snd (merge message (headers s))) \<and> 2000 \<le> length message) \<and>
   signalled (snd (handle_receive_headers ec message s)) = signalled s @
     (if stopped s then []
      else if ec \<noteq> success then [ec]
      else if \<not> fst (merge message (headers s)) then [invalid_previous_block]
      else if complete (snd (merge message (headers s))) then [success]
      else if length message < 2000 then [operation_failed]
      else []) \<and>
   sent (snd (handle_receive_headers ec message s)) = sent s @
     (if fst (handle_receive_headers ec message s)
      then [\<lparr>start_hashes = [previous_hash (snd (merge message (headers s)))],
             stop_hash_of = stop_hash (snd (merge message (headers s)))\<rparr>]
      else [])"
  by (simp add: handle_receive_headers_def Let_def split_beta max_get_headers_def
      signal_complete_def headers_complete_def send_get_headers_def)

text \<open>
  Both sides of the equivalence occur. All headers of the batches below carry the hash 0
  and name 0 as their previous hash, so they link to each other and never reach the
  stop hash 1.
\<close>

lemma links_replicate:
  "links 0 (replicate n \<lparr>previous_block_hash = 0, hash_of_self = 0\<rparr>)"
  by (induction n) (simp_all add: hash_block_header_def)

lemma accepted_replicate:
  "accepted 1 (replicate n \<lparr>previous_block_hash = 0, hash_of_self = 0\<rparr>)
     = replicate n \<lparr>previous_block_hash = 0, hash_of_self = 0\<rparr>"
  by (induction n) (simp_all add: hash_block_header_def)

lemma merge_replicate:
  "n \<le> 5000 \<Longrightarrow>
   merge (replicate n \<lparr>previous_block_hash = 0, hash_of_self = 0\<rparr>)
       (new_header_list 0 0 1 5000)
     = (True, (new_header_list 0 0 1 5000)
                \<lparr>slots := replicate n \<lparr>previous_block_hash = 0, hash_of_self = 0\<rparr>\<rparr>)"
  by (simp add: merge_def new_header_list_def previous_hash_def accepted_replicate
      links_replicate)

lemma incomplete_replicate:
  "\<not> complete ((new_header_list 0 0 1 5000)
                \<lparr>slots := replicate n \<lparr>previous_block_hash = 0, hash_of_self = 0\<rparr>\<rparr>)"
  by (cases n)
    (simp_all add: complete_def new_header_list_def hash_block_header_def split: list.splits)

theorem keep_subscription_iff_witness:
  "fst (handle_receive_headers success
          (replicate 2000 \<lparr>previous_block_hash = 0, hash_of_self = 0\<rparr>)
          (start (protocol_header_sync (new_header_list 0 0 1 5000) 10 False))) \<and>
   \<not> fst (handle_receive_headers success
          (replicate 1999 \<lparr>previous_block_hash = 0, hash_of_self = 0\<rparr>)
          (start (protocol_header_sync (new_header_list 0 0 1 5000) 10 False)))"
proof -
  let ?P = "start (protocol_header_sync (new_header_list 0 0 1 5000) 10 False)"
  have h: "headers ?P = new_header_list 0 0 1 5000" "\<not> stopped ?P"
    by (simp_all add: start_def send_get_headers_def protocol_header_sync_def)
  from h merge_replicate [of 2000] merge_replicate [of 1999]
    incomplete_replicate [of 2000] incomplete_replicate [of 1999]
    keep_subscription_iff
      [of success "replicate 2000 \<lparr>previous_block_hash = 0, hash_of_self = 0\<rparr>" ?P]
    keep_subscription_iff
      [of success "replicate 1999 \<lparr>previous_block_hash = 0, hash_of_self = 0\<rparr>" ?P]
  show ?thesis by simp
qed

section \<open>The header-sync protocol: the rate timer\<close>

lemma rate_tick_formula:
  "current_second s + expiry_interval \<noteq> 0 \<Longrightarrow>
     handle_event channel_timeout s =
       Inr (if (previous_height (headers s) - start_size s)
                 div (current_second s + expiry_interval) < ucast (minimum_rate s)
            then signal_complete channel_timeout
                   (s\<lparr>current_second := current_second s + expiry_interval\<rparr>)
            else s\<lparr>current_second := current_second s + expiry_interval\<rparr>)"
  by (simp add: handle_event_def Let_def)

lemma zero_progress_numerator:
  "previous_height hs - start_size (protocol_header_sync hs r st) = first_height hs"
  by (simp add: protocol_header_sync_def)

text \<open>
  Claim C1. A tick with code \<open>channel_timeout\<close> adds the interval of 5 seconds to the
  seconds counter and divides \<open>previous_height() - start_size\<close> by it, where
  \<open>start_size\<close> is \<open>previous_height() - first_height()\<close> from the constructor: so far the
  code is as the claim has it. The claim goes on to what the comments in the source
  promise, a download rate that is measured and a channel that is dropped when it falls
  below the minimum: a peer that has delivered nothing has the rate 0 after one interval
  and is completed with \<open>channel_timeout\<close> whatever the positive minimum rate. The code
  misses this. The difference takes a number of headers from a height, and with nothing
  delivered it is the first height of the table. For an empty table that starts at height
  100 and the minimum rate 10, the first tick computes the rate 20, signals nothing and
  keeps the peer.
\<close>

theorem rate_tick_silent_peer:
  "handle_event channel_timeout
       (start (protocol_header_sync (new_header_list 100 7 9 50) 10 False))
     = Inr ((start (protocol_header_sync (new_header_list 100 7 9 50) 10 False))
              \<lparr>current_second := 5\<rparr>) \<and>
   slots (headers (start (protocol_header_sync (new_header_list 100 7 9 50) 10 False))) = [] \<and>
   signalled ((start (protocol_header_sync (new_header_list 100 7 9 50) 10 False))
              \<lparr>current_second := 5\<rparr>) = [] \<and>
   handled ((start (protocol_header_sync (new_header_list 100 7 9 50) 10 False))
              \<lparr>current_second := 5\<rparr>) = [] \<and>
   \<not> stopped ((start (protocol_header_sync (new_header_list 100 7 9 50) 10 False))
              \<lparr>current_second := 5\<rparr>) \<and>
   (0::uint32_t) < 10 \<and>
   (previous_height (new_header_list 100 7 9 50)
      - start_size (protocol_header_sync (new_header_list 100 7 9 50) 10 False)) div 5 = 20"
  by (simp add: protocol_header_sync_def start_def send_get_headers_def handle_event_def
      expiry_interval_def previous_height_def new_header_list_def previous_hash_def)

text \<open>
  \<open>handle_event\<close> tests no \<open>stopped()\<close>. What it does when it is called in a state
  that a started instance has reached after its handler ran: the completion barrier
  drops what it signals, and a call with \<open>channel_timeout\<close> or without error code still
  advances the seconds counter. Whether the timer of the network library calls it in
  such a state is not visible in the sources.
\<close>

lemma handle_event_after_completion:
  assumes "run evs (start (protocol_header_sync hs r st)) = Inr s"
    and "handled s \<noteq> []"
    and "current_second s + expiry_interval \<noteq> 0"
  shows "stopped s \<and>
         (\<exists>s'. handle_event ec s = Inr s' \<and>
            handled s' = handled s \<and> stop_requests s' = stop_requests s \<and>
            sent s' = sent s \<and> headers s' = headers s \<and> stopped s' = stopped s \<and>
            subscribed s' = subscribed s \<and> timer_armed s' = timer_armed s \<and>
            current_second s' =
              (if ec = success \<or> ec = channel_timeout
               then current_second s + expiry_interval else current_second s))"
proof -
  have inv: "sync_invariant s"
    using invariant_run [OF invariant_start assms(1)] .
  with assms(2) have f: "fired s" "stopped s"
    by (auto simp: sync_invariant_def)
  from f(1) have sc: "\<And>c x. signal_complete c (s\<lparr>current_second := x\<rparr>)
      = s\<lparr>current_second := x, signalled := signalled s @ [c]\<rparr>"
    by (simp add: signal_complete_def Let_def)
  from f(1) have sc0: "\<And>c. signal_complete c s = s\<lparr>signalled := signalled s @ [c]\<rparr>"
    by (simp add: signal_complete_def Let_def)
  from assms(3) f(2) show ?thesis
    by (cases ec) (simp_all add: handle_event_def Let_def sc sc0)
qed

section \<open>The session: reorganizations\<close>

lemma push_block_inventories_map:
  "push_block_inventories bs msg =
     msg\<lparr>inventories := inventories msg @
           map (\<lambda>b. \<lparr>type = block, hash = hash_block_header (header b)\<rparr>) bs\<rparr>"
  by (induction bs arbitrary: msg) simp_all

lemma assertion_holds:
  assumes "unat fork_point + length new_blocks \<le> 2 ^ 32 - 1"
  shows "(of_nat (length new_blocks) :: size_t) \<le> ucast (max_uint32 - fork_point)"
proof -
  from assms have "length new_blocks < 2 ^ 64" by simp
  then have "unat (of_nat (length new_blocks) :: size_t) = length new_blocks"
    by (rule unat_size_of_length)
  with assms show ?thesis
    by (simp add: word_le_nat_alt unat_ucast_32_64 unat_max_minus)
qed

lemma height_exact:
  assumes "unat (fork_point :: uint32_t) + length new_blocks \<le> 2 ^ 32 - 1"
  shows "unat (ucast ((ucast fork_point :: size_t) + of_nat (length new_blocks)) :: uint32_t)
           = unat fork_point + length new_blocks"
proof -
  from assms have l: "length new_blocks < 2 ^ 64" by simp
  have "unat ((ucast fork_point :: size_t) + of_nat (length new_blocks))
          = (unat fork_point + length new_blocks) mod 2 ^ 64"
    using l by (simp add: unat_word_ariths unat_ucast_32_64 unat_of_nat)
  also from assms have "\<dots> = unat fork_point + length new_blocks" by simp
  finally show ?thesis using assms by (simp add: unat_ucast_64_32)
qed

text \<open>
  Claim C6, as the code has it. For every reorganization that comes without error and
  whose fork point plus number of new blocks does not exceed the largest 32-bit value,
  which is what the handler asserts, the session pushes exactly that sum to the handshake,
  subscribes to the next reorganization, and broadcasts one inventory message that holds,
  in the order of the new blocks, one block vector with the header hash of each.
\<close>

theorem reorganize_handled:
  assumes "unat fork_point + length new_blocks \<le> 2 ^ 32 - 1"
  shows "\<exists>height.
           unat height = unat fork_point + length new_blocks \<and>
           set_start_height checked success fork_point new_blocks replaced_blocks s =
             Inr (s\<lparr>handshake_heights := handshake_heights s @ [height],
                    reorganize_subscriptions := reorganize_subscriptions s + 1,
                    broadcasts := broadcasts s @
                      [\<lparr>inventories =
                          map (\<lambda>b. \<lparr>type = block, hash = hash_block_header (header b)\<rparr>)
                            new_blocks\<rparr>]\<rparr>)"
proof (rule exI [of _ "ucast ((ucast fork_point :: size_t) + of_nat (length new_blocks))"])
  show "unat (ucast ((ucast fork_point :: size_t) + of_nat (length new_blocks)) :: uint32_t)
          = unat fork_point + length new_blocks \<and>
        set_start_height checked success fork_point new_blocks replaced_blocks s =
          Inr (s\<lparr>handshake_heights := handshake_heights s @
                   [ucast ((ucast fork_point :: size_t) + of_nat (length new_blocks))],
                 reorganize_subscriptions := reorganize_subscriptions s + 1,
                 broadcasts := broadcasts s @
                   [\<lparr>inventories =
                       map (\<lambda>b. \<lparr>type = block, hash = hash_block_header (header b)\<rparr>)
                         new_blocks\<rparr>]\<rparr>)"
    using assertion_holds [OF assms] height_exact [OF assms]
    by (simp add: set_start_height_def Let_def push_block_inventories_map)
qed

text \<open>Fork point 100 and two new blocks, on a session that has done nothing yet.\<close>

theorem reorganize_handled_witness:
  "unat (100 :: uint32_t) +
     length [\<lparr>header = \<lparr>previous_block_hash = 1, hash_of_self = 2\<rparr>\<rparr>,
             \<lparr>header = \<lparr>previous_block_hash = 2, hash_of_self = 3\<rparr>\<rparr>] \<le> 2 ^ 32 - 1 \<and>
   set_start_height True success 100
     [\<lparr>header = \<lparr>previous_block_hash = 1, hash_of_self = 2\<rparr>\<rparr>,
      \<lparr>header = \<lparr>previous_block_hash = 2, hash_of_self = 3\<rparr>\<rparr>] [] (new_session {})
     = Inr ((new_session {})
              \<lparr>handshake_heights := [102],
                reorganize_subscriptions := 1,
                broadcasts := [\<lparr>inventories = [\<lparr>type = block, hash = 2\<rparr>,
                                               \<lparr>type = block, hash = 3\<rparr>]\<rparr>]\<rparr>)"
proof -
  have b: "unat (100 :: uint32_t) +
     length [\<lparr>header = \<lparr>previous_block_hash = 1, hash_of_self = 2\<rparr>\<rparr>,
             \<lparr>header = \<lparr>previous_block_hash = 2, hash_of_self = 3\<rparr>\<rparr>] \<le> 2 ^ 32 - 1"
    by simp
  from reorganize_handled [OF b, of True "[]" "new_session {}"]
  obtain height :: uint32_t where h: "unat height = 102"
    and r: "set_start_height True success 100
     [\<lparr>header = \<lparr>previous_block_hash = 1, hash_of_self = 2\<rparr>\<rparr>,
      \<lparr>header = \<lparr>previous_block_hash = 2, hash_of_self = 3\<rparr>\<rparr>] [] (new_session {})
       = Inr ((new_session {})
              \<lparr>handshake_heights := handshake_heights (new_session {}) @ [height],
                reorganize_subscriptions := reorganize_subscriptions (new_session {}) + 1,
                broadcasts := broadcasts (new_session {}) @
                  [\<lparr>inventories = [\<lparr>type = block, hash = 2\<rparr>,
                                    \<lparr>type = block, hash = 3\<rparr>]\<rparr>]\<rparr>)"
    by (auto simp: hash_block_header_def)
  from h have "height = 102" by (simp add: word_unat_eq_iff)
  with r b show ?thesis by (simp add: new_session_def)
qed

text \<open>
  Fork point \<open>2 ^ 32 - 1\<close> and one new block. With assertions the handler aborts and
  pushes nothing; without them it pushes the height 0. In neither case is the height
  pushed the fork point plus one.
\<close>

theorem reorganize_handled_counterexample:
  "set_start_height True success 0xFFFFFFFF
     [\<lparr>header = \<lparr>previous_block_hash = 1, hash_of_self = 2\<rparr>\<rparr>] [] (new_session {})
     = Inl assertion_failed \<and>
   set_start_height False success 0xFFFFFFFF
     [\<lparr>header = \<lparr>previous_block_hash = 1, hash_of_self = 2\<rparr>\<rparr>] [] (new_session {})
     = Inr ((new_session {})
              \<lparr>handshake_heights := [0],
                reorganize_subscriptions := 1,
                broadcasts := [\<lparr>inventories = [\<lparr>type = block, hash = 2\<rparr>]\<rparr>]\<rparr>)"
  by (simp add: set_start_height_def new_session_def max_uint32_def hash_block_header_def)

text \<open>
  Claim C7, as the code has it. A reorganization that comes without error and with no new
  block still makes one broadcast: the handler calls \<open>broadcast\<close> unconditionally, here
  with an inventory message that holds no vector. It also pushes the fork point as height
  and subscribes again.
\<close>

theorem empty_reorganize_broadcast:
  "set_start_height checked success fork_point [] replaced_blocks s =
     Inr (s\<lparr>handshake_heights := handshake_heights s @ [fork_point],
            reorganize_subscriptions := reorganize_subscriptions s + 1,
            broadcasts := broadcasts s @ [\<lparr>inventories = []\<rparr>]\<rparr>)"
proof -
  have "ucast (ucast fork_point :: size_t) = fork_point"
    by (rule ucast_up_ucast_id) (simp add: is_up)
  then show ?thesis by (simp add: set_start_height_def)
qed

text \<open>Fork point 100 and no new block: the list of broadcasts is not empty afterwards.\<close>

theorem empty_reorganize_broadcast_counterexample:
  "set_start_height True success 100 [] [] (new_session {}) =
     Inr ((new_session {})
            \<lparr>handshake_heights := [100], reorganize_subscriptions := 1,
              broadcasts := [\<lparr>inventories = []\<rparr>]\<rparr>) \<and>
   set_start_height False success 100 [] [] (new_session {}) =
     Inr ((new_session {})
            \<lparr>handshake_heights := [100], reorganize_subscriptions := 1,
              broadcasts := [\<lparr>inventories = []\<rparr>]\<rparr>) \<and>
   broadcasts ((new_session {})
            \<lparr>handshake_heights := [100], reorganize_subscriptions := 1,
              broadcasts := [\<lparr>inventories = []\<rparr>]\<rparr>) \<noteq> []"
  by (simp add: set_start_height_def new_session_def max_uint32_def)

section \<open>The session: transaction inventories\<close>

text \<open>
  Claim C9. A \<open>new_tx_inventory\<close> task for a hash and a channel puts one \<open>exists\<close>
  query for that hash to the transaction pool; if the pool does not know the hash, one
  \<open>get_data\<close> message with the single vector (transaction, hash) is sent on that channel,
  and if the pool knows it, nothing is sent.
\<close>

theorem tx_inventory_request:
  "new_tx_inventory checked tx_hash (Some c) s =
     Inr (s\<lparr>exists_queries := exists_queries s @ [tx_hash],
            channel_sends := channel_sends s @
              (if tx_hash \<in> tx_pool s then []
               else [(c, \<lparr>inventories = [\<lparr>type = transaction, hash = tx_hash\<rparr>]\<rparr>)])\<rparr>)"
  by (simp add: new_tx_inventory_def request_tx_data_def)

text \<open>The pool knows the hash 7 and not the hash 5.\<close>

theorem tx_inventory_request_witness:
  "new_tx_inventory True 5 (Some 1) (new_session {7}) =
     Inr ((new_session {7})
            \<lparr>exists_queries := [5],
              channel_sends := [(1, \<lparr>inventories = [\<lparr>type = transaction, hash = 5\<rparr>]\<rparr>)]\<rparr>) \<and>
   new_tx_inventory True 7 (Some 1) (new_session {7}) =
     Inr ((new_session {7})\<lparr>exists_queries := [7], channel_sends := []\<rparr>)"
  using tx_inventory_request [of True 5 1 "new_session {7}"]
    tx_inventory_request [of True 7 1 "new_session {7}"]
  by (simp add: new_session_def)

section \<open>The session: new channels\<close>

lemma no_subscription_no_event:
  "channel_subscriptions s = 0 \<Longrightarrow> channel_events checked evs s = Inr s"
  by (induction evs) (simp_all add: channel_event_def)

lemma channel_events_append:
  "channel_events checked (xs @ ys) s =
     (case channel_events checked xs s of
        Inl f \<Rightarrow> Inl f
      | Inr s' \<Rightarrow> channel_events checked ys s')"
  by (induction xs arbitrary: s) (simp_all split: sum.splits)

lemma channel_event_pending:
  "channel_subscriptions s \<le> 1 \<Longrightarrow> channel_event checked e s = Inr s' \<Longrightarrow>
     channel_subscriptions s' \<le> 1"
  by (auto simp: channel_event_def new_channel_def split: if_splits option.splits)

lemma channel_events_pending:
  "channel_subscriptions s \<le> 1 \<Longrightarrow> channel_events checked evs s = Inr s' \<Longrightarrow>
     channel_subscriptions s' \<le> 1"
proof (induction evs arbitrary: s)
  case Nil
  then show ?case by simp
next
  case (Cons e evs)
  from Cons.prems(2) obtain s1 where s1: "channel_event checked e s = Inr s1"
    "channel_events checked evs s1 = Inr s'"
    by (auto split: sum.splits)
  from Cons.prems(1) s1(1) have "channel_subscriptions s1 \<le> 1"
    by (rule channel_event_pending)
  then show ?case using s1(2) by (rule Cons.IH)
qed

lemma errored_event_ends:
  "channel_subscriptions s \<le> 1 \<Longrightarrow> ec \<noteq> success \<Longrightarrow>
     \<exists>s'. channel_event checked (ec, node) s = Inr s' \<and> channel_subscriptions s' = 0"
  by (auto simp: channel_event_def new_channel_def)

text \<open>
  Claim C10. Called with an error code, \<open>new_channel\<close> writes the failure to the log and
  returns: it subscribes nothing on the channel, calls the poller for nothing and does
  not subscribe to new channels again. In a session that was started, where one such
  subscription is pending at a time, a notification with an error code therefore leaves
  none pending, and whatever notifications follow it reach no handler: the state after
  them is the state right after the errored one.
\<close>

theorem new_channel_error_ends_chain:
  assumes "ec \<noteq> success"
    and "channel_events checked before (session_start h (new_session pool)) = Inr s"
  shows "new_channel checked ec node s =
           Inr (s\<lparr>error_log := error_log s @ [Failure_to_establish_channel node ec]\<rparr>) \<and>
         (\<exists>s'. channel_events checked (before @ [(ec, node)])
                  (session_start h (new_session pool)) = Inr s' \<and>
               channel_subscriptions s' = 0 \<and>
               channel_events checked (before @ (ec, node) # after)
                 (session_start h (new_session pool)) = Inr s')"
proof -
  have "channel_subscriptions (session_start h (new_session pool)) \<le> 1"
    by (simp add: session_start_def new_session_def)
  with assms(2) have p: "channel_subscriptions s \<le> 1"
    by (rule channel_events_pending [rotated])
  then obtain s' where s': "channel_event checked (ec, node) s = Inr s'"
    "channel_subscriptions s' = 0"
    using errored_event_ends [OF _ assms(1)] by blast
  from s'(2) have "channel_events checked after s' = Inr s'"
    by (rule no_subscription_no_event)
  with assms(2) s' have "channel_events checked (before @ [(ec, node)])
      (session_start h (new_session pool)) = Inr s'"
    "channel_events checked (before @ (ec, node) # after)
      (session_start h (new_session pool)) = Inr s'"
    by (simp_all add: channel_events_append)
  with s'(2) assms(1) show ?thesis by (simp add: new_channel_def)
qed

text \<open>
  A started session is told of channel 1, then of a failure with a null channel, then of
  channel 2. The third notification changes nothing.
\<close>

theorem new_channel_error_ends_chain_witness:
  "other_error 1 \<noteq> success \<and>
   channel_events True [(success, Some 1)] (session_start 0 (new_session {}))
     = Inr ((session_start 0 (new_session {}))
              \<lparr>inventory_subscriptions := [1], get_blocks_subscriptions := [1],
                poll_queries := [1], poll_monitors := [1]\<rparr>) \<and>
   channel_events True ([(success, Some 1)] @ (other_error 1, None) # [(success, Some 2)])
       (session_start 0 (new_session {}))
     = Inr ((session_start 0 (new_session {}))
              \<lparr>inventory_subscriptions := [1], get_blocks_subscriptions := [1],
                poll_queries := [1], poll_monitors := [1],
                channel_subscriptions := 0,
                error_log := [Failure_to_establish_channel None (other_error 1)]\<rparr>)"
proof -
  let ?s1 = "(session_start 0 (new_session {}))
              \<lparr>inventory_subscriptions := [1], get_blocks_subscriptions := [1],
                poll_queries := [1], poll_monitors := [1]\<rparr>"
  have a: "other_error 1 \<noteq> success" by simp
  have b: "channel_events True [(success, Some 1)] (session_start 0 (new_session {})) = Inr ?s1"
    by (simp add: channel_event_def new_channel_def session_start_def new_session_def)
  have c: "channel_events True ([(success, Some 1)] @ [(other_error 1, None)])
       (session_start 0 (new_session {}))
     = Inr (?s1\<lparr>channel_subscriptions := 0,
                error_log := [Failure_to_establish_channel None (other_error 1)]\<rparr>)"
    by (simp add: channel_event_def new_channel_def session_start_def new_session_def)
  from new_channel_error_ends_chain [OF a b, of None "[(success, Some 2)]"] a b c
  show ?thesis by auto
qed

end
